theory Spec2Isabelle
  imports Main "HOL-Library.Word"
begin

section \<open>JavaScript values used by the video generation client\<close>

text \<open>
  A JavaScript string is a sequence of 16-bit UTF-16 code units. The string literals of
  the source are ASCII; \<open>js\<close> turns such a literal into its code units.
\<close>

type_synonym jsstring = "16 word list"

definition js :: "string \<Rightarrow> jsstring" where
  "js s = map of_char s"

text \<open>
  Truthiness of a value that is a string or \<open>undefined\<close> (\<open>None\<close>): only a
  non-empty string is truthy. This is the test behind \<open>!process.env.API_KEY\<close>,
  \<open>!prompt.trim()\<close> and \<open>!operation.response?...?.uri\<close>.
\<close>

fun truthy :: "jsstring option \<Rightarrow> bool" where
  "truthy None = False"
| "truthy (Some s) = (s \<noteq> [])"

text \<open>
  \<open>String.prototype.trim\<close> strips the ECMAScript WhiteSpace and LineTerminator code
  points from both ends: TAB, LF, VT, FF, CR, SPACE, NBSP, U+1680, U+2000..U+200A,
  U+2028, U+2029, U+202F, U+205F, U+3000 and U+FEFF.
\<close>

definition is_whitespace :: "16 word \<Rightarrow> bool" where
  "is_whitespace c =
     (c \<in> {0x0009, 0x000A, 0x000B, 0x000C, 0x000D, 0x0020, 0x00A0, 0x1680,
            0x2000, 0x2001, 0x2002, 0x2003, 0x2004, 0x2005, 0x2006, 0x2007,
            0x2008, 0x2009, 0x200A, 0x2028, 0x2029, 0x202F, 0x205F, 0x3000, 0xFEFF})"

definition trim :: "jsstring \<Rightarrow> jsstring" where
  "trim s = rev (dropWhile is_whitespace (rev (dropWhile is_whitespace s)))"

text \<open>
  \<open>s.split(sep)\<close> for a one-unit separator: the pieces between the occurrences of the
  separator, in order; a string without the separator is one piece, itself.
\<close>

fun split :: "16 word \<Rightarrow> jsstring \<Rightarrow> jsstring list" where
  "split sep [] = [[]]"
| "split sep (c # cs) =
     (if c = sep then [] # split sep cs
      else (case split sep cs of
              [] \<Rightarrow> [[c]]
            | piece # pieces \<Rightarrow> (c # piece) # pieces))"

text \<open>Array indexing \<open>xs[i]\<close>: \<open>undefined\<close> (\<open>None\<close>) out of range.\<close>

fun index :: "'a list \<Rightarrow> nat \<Rightarrow> 'a option" where
  "index [] i = None"
| "index (x # xs) 0 = Some x"
| "index (x # xs) (Suc i) = index xs i"

text \<open>
  A thrown (or rejected) value: an \<open>Error\<close> object with its message, or some value that
  is not an instance of \<open>Error\<close> (the event a failing \<open>FileReader\<close> rejects with).
\<close>

datatype js_exn = Error jsstring | NonError

section \<open>Data exchanged with the browser and the generation service\<close>

type_synonym blob = "8 word list"

record js_file =
  file_type :: jsstring
  file_bytes :: "8 word list"

record image_payload =
  imageBytes :: "jsstring option"
  mimeType :: jsstring

record generate_request =
  req_model :: jsstring
  req_prompt :: jsstring
  req_image :: "image_payload option"
  req_numberOfVideos :: nat

text \<open>
  The job handle: \<open>operation.done\<close> and the optional chain
  \<open>operation.response?.generatedVideos?.[0]?.video?.uri\<close>, every link of which may be
  \<open>undefined\<close>.
\<close>

record video =
  uri :: "jsstring option"

record generated_video =
  gv_video :: "video option"

record videos_response =
  generatedVideos :: "generated_video list option"

record operation =
  op_name :: jsstring
  op_done :: bool
  op_response :: "videos_response option"

definition video_uri :: "operation \<Rightarrow> jsstring option" where
  "video_uri operation =
     (case op_response operation of
        None \<Rightarrow> None
      | Some r \<Rightarrow>
          (case generatedVideos r of
             None \<Rightarrow> None
           | Some vs \<Rightarrow>
               (case index vs 0 of
                  None \<Rightarrow> None
                | Some gv \<Rightarrow>
                    (case gv_video gv of
                       None \<Rightarrow> None
                     | Some v \<Rightarrow> uri v))))"

text \<open>
  The response of \<open>fetch\<close>: \<open>response.ok\<close> is true exactly for a status in 200..299;
  \<open>response.blob()\<close> yields the body or rejects.
\<close>

record http_response =
  http_status :: nat
  statusText :: jsstring
  body_blob :: "js_exn + blob"

definition ok :: "http_response \<Rightarrow> bool" where
  "ok r = (200 \<le> http_status r \<and> http_status r \<le> 299)"

section \<open>The outside world and the observable behaviour of a call\<close>

text \<open>
  Everything \<open>generateVideo\<close> reads or calls outside itself: the environment variable,
  the \<open>FileReader\<close> (its result string, or \<open>None\<close> when \<open>onerror\<close> fires), the two
  calls of the generation service, \<open>fetch\<close> and \<open>URL.createObjectURL\<close>. The reply to a
  status check may change from one check to the next, so \<open>getVideosOperation\<close> also
  takes the number of checks made before.
\<close>

record world =
  env_API_KEY :: "jsstring option"
  readAsDataURL :: "js_file \<Rightarrow> jsstring option"
  generateVideos :: "generate_request \<Rightarrow> js_exn + operation"
  getVideosOperation :: "nat \<Rightarrow> operation \<Rightarrow> js_exn + operation"
  fetch :: "jsstring \<Rightarrow> js_exn + http_response"
  createObjectURL :: "blob \<Rightarrow> jsstring"

text \<open>
  What a run does, in order: each call of \<open>onProgress\<close>, each timer, and each call
  of the outside world with what it answered.
\<close>

datatype event =
    Progress jsstring
  | ReadAsDataURL js_file "jsstring option"
  | GenerateVideos generate_request "js_exn + operation"
  | SetTimeout nat
  | GetVideosOperation operation "js_exn + operation"
  | Fetch jsstring "js_exn + http_response"
  | ResponseBlob "js_exn + blob"
  | CreateObjectURL blob jsstring
  | ConsoleError js_exn

text \<open>
  A run returns, throws, or is still waiting in the poll loop when the observation ends
  (\<open>Pending\<close>). \<open>andThen\<close> is the sequencing of two statements: the second runs only
  if the first returned.
\<close>

datatype 'a outcome = Returned 'a | Thrown js_exn | Pending

type_synonym 'a run = "event list \<times> 'a outcome"

definition ret :: "'a \<Rightarrow> 'a run" where
  "ret x = ([], Returned x)"

definition throw :: "js_exn \<Rightarrow> 'a run" where
  "throw e = ([], Thrown e)"

definition andThen :: "'a run \<Rightarrow> ('a \<Rightarrow> 'b run) \<Rightarrow> 'b run" where
  "andThen m f =
     (case m of
        (evs, Returned x) \<Rightarrow> (case f x of (evs', r) \<Rightarrow> (evs @ evs', r))
      | (evs, Thrown e) \<Rightarrow> (evs, Thrown e)
      | (evs, Pending) \<Rightarrow> (evs, Pending))"

definition settle :: "js_exn + 'a \<Rightarrow> 'a outcome" where
  "settle r = (case r of Inl e \<Rightarrow> Thrown e | Inr x \<Rightarrow> Returned x)"

definition onProgress :: "jsstring \<Rightarrow> unit run" where
  "onProgress message = ([Progress message], Returned ())"

section \<open>The service module\<close>

text \<open>
  \<open>fileToBase64\<close>: the reader's result is split at the commas and the piece of index
  1 is the value of the promise; the promise is rejected with the reader's error event.
\<close>

definition fileToBase64 :: "world \<Rightarrow> js_file \<Rightarrow> (jsstring option) run" where
  "fileToBase64 w f =
     (case readAsDataURL w f of
        None \<Rightarrow> ([ReadAsDataURL f None], Thrown NonError)
      | Some result \<Rightarrow> ([ReadAsDataURL f (Some result)], Returned (index (split 0x2C result) 1)))"

record generate_video_params =
  prompt :: jsstring
  imageFile :: "js_file option"

text \<open>
  The \<open>while (!operation.done)\<close> loop. \<open>fuel\<close> bounds the iterations observed: a
  handle that is still not done when it is used up leaves the run \<open>Pending\<close>.
  \<open>k\<close> counts the status checks made so far.
\<close>

fun poll_loop :: "world \<Rightarrow> nat \<Rightarrow> nat \<Rightarrow> operation \<Rightarrow> operation run" where
  "poll_loop w 0 k operation =
     (if op_done operation then ret operation else ([], Pending))"
| "poll_loop w (Suc fuel) k operation =
     (if op_done operation then ret operation
      else
        andThen ([SetTimeout 10000], Returned ()) (\<lambda>_.
        andThen (onProgress (js ''Checking video generation status...'')) (\<lambda>_.
        andThen (let r = getVideosOperation w k operation
                 in ([GetVideosOperation operation r], settle r)) (\<lambda>operation'.
        poll_loop w fuel (Suc k) operation'))))"

text \<open>
  \<open>generateVideo\<close>, statement by statement: the check of the API key, the encoding of
  the image if there is one, the submission, the poll loop, the check of the video URI,
  the download with the key appended, and the object URL of the downloaded blob. Every
  \<open>await\<close> of a call that rejects ends the run with what it rejected with.
\<close>

definition generateVideo :: "world \<Rightarrow> nat \<Rightarrow> generate_video_params \<Rightarrow> jsstring run" where
  "generateVideo w fuel params =
     (case env_API_KEY w of
        None \<Rightarrow> throw (Error (js ''API_KEY environment variable not set''))
      | Some apiKey \<Rightarrow>
        if apiKey = [] then throw (Error (js ''API_KEY environment variable not set''))
        else
          andThen (case imageFile params of
                     None \<Rightarrow> ret None
                   | Some f \<Rightarrow>
                       andThen (onProgress (js ''Encoding image...'')) (\<lambda>_.
                       andThen (fileToBase64 w f) (\<lambda>base64Data.
                       ret (Some \<lparr>imageBytes = base64Data, mimeType = file_type f\<rparr>))))
          (\<lambda>imagePayload.
          andThen (onProgress (js ''Sending request to AI...'')) (\<lambda>_.
          andThen (let request = \<lparr>req_model = js ''veo-2.0-generate-001'',
                                  req_prompt = prompt params,
                                  req_image = imagePayload,
                                  req_numberOfVideos = 1\<rparr>;
                       r = generateVideos w request
                   in ([GenerateVideos request r], settle r)) (\<lambda>operation.
          andThen (onProgress (js ''AI is warming up... This may take a few minutes.'')) (\<lambda>_.
          andThen (poll_loop w fuel 0 operation) (\<lambda>operation.
          case video_uri operation of
            None \<Rightarrow> throw (Error (js ''Video generation failed or returned no URI.''))
          | Some downloadLink \<Rightarrow>
            if downloadLink = []
            then throw (Error (js ''Video generation failed or returned no URI.''))
            else
              andThen (onProgress (js ''Downloading generated video...'')) (\<lambda>_.
              andThen (let url = downloadLink @ js ''&key='' @ apiKey;
                           r = fetch w url
                       in ([Fetch url r], settle r)) (\<lambda>response.
              if \<not> ok response
              then throw (Error (js ''Failed to download video: '' @ statusText response))
              else
                andThen ([ResponseBlob (body_blob response)], settle (body_blob response))
                  (\<lambda>videoBlob.
                andThen (onProgress (js ''Finalizing video...'')) (\<lambda>_.
                let url = createObjectURL w videoBlob
                in ([CreateObjectURL videoBlob url], Returned url)))))))))))"

section \<open>The form component\<close>

datatype ui_status = Idle | Loading | Success | Failed

record ui_state =
  ui_prompt :: jsstring
  ui_imageFile :: "js_file option"
  status :: ui_status
  errorMessage :: jsstring
  videoUrl :: "jsstring option"

text \<open>
  \<open>handleSubmit\<close>: the component state after the handler (the state \<open>Loading\<close> while
  the call is still pending), with what the call did. \<open>Failed\<close> is the status
  \<open>'error'\<close>.
\<close>

definition handleSubmit :: "world \<Rightarrow> nat \<Rightarrow> ui_state \<Rightarrow> event list \<times> ui_state" where
  "handleSubmit w fuel ui =
     (if trim (ui_prompt ui) = []
      then ([], ui\<lparr>errorMessage := js ''Please enter a prompt for your video.'',
                    status := Failed\<rparr>)
      else
        let ui' = ui\<lparr>status := Loading, errorMessage := [], videoUrl := None\<rparr>
        in (case generateVideo w fuel \<lparr>prompt = ui_prompt ui, imageFile = ui_imageFile ui\<rparr> of
              (evs, Returned url) \<Rightarrow> (evs, ui'\<lparr>videoUrl := Some url, status := Success\<rparr>)
            | (evs, Thrown err) \<Rightarrow>
                (evs @ [ConsoleError err],
                 ui'\<lparr>errorMessage :=
                        js ''Failed to generate video: '' @
                          (case err of
                             Error message \<Rightarrow> message
                           | NonError \<Rightarrow> js ''An unknown error occurred.''),
                      status := Failed\<rparr>)
            | (evs, Pending) \<Rightarrow> (evs, ui')))"

section \<open>Reading a run\<close>

text \<open>
  Projections of the event list of a run: the messages given to \<open>onProgress\<close>, the
  files read, the submissions to the service, the timer delays, the status checks (the
  handle passed and the reply), the download requests, the object URLs created, and
  \<open>handles\<close>, the job handles the service returned (by the submission or by a
  status check), in order.
\<close>

fun progress_messages :: "event list \<Rightarrow> jsstring list" where
  "progress_messages [] = []"
| "progress_messages (Progress m # evs) = m # progress_messages evs"
| "progress_messages (_ # evs) = progress_messages evs"

fun file_reads :: "event list \<Rightarrow> js_file list" where
  "file_reads [] = []"
| "file_reads (ReadAsDataURL f r # evs) = f # file_reads evs"
| "file_reads (_ # evs) = file_reads evs"

fun submissions :: "event list \<Rightarrow> (generate_request \<times> (js_exn + operation)) list" where
  "submissions [] = []"
| "submissions (GenerateVideos request r # evs) = (request, r) # submissions evs"
| "submissions (_ # evs) = submissions evs"

fun timers :: "event list \<Rightarrow> nat list" where
  "timers [] = []"
| "timers (SetTimeout ms # evs) = ms # timers evs"
| "timers (_ # evs) = timers evs"

fun status_checks :: "event list \<Rightarrow> (operation \<times> (js_exn + operation)) list" where
  "status_checks [] = []"
| "status_checks (GetVideosOperation h r # evs) = (h, r) # status_checks evs"
| "status_checks (_ # evs) = status_checks evs"

fun downloads :: "event list \<Rightarrow> (jsstring \<times> (js_exn + http_response)) list" where
  "downloads [] = []"
| "downloads (Fetch url r # evs) = (url, r) # downloads evs"
| "downloads (_ # evs) = downloads evs"

fun object_urls :: "event list \<Rightarrow> (blob \<times> jsstring) list" where
  "object_urls [] = []"
| "object_urls (CreateObjectURL b url # evs) = (b, url) # object_urls evs"
| "object_urls (_ # evs) = object_urls evs"

fun handles :: "event list \<Rightarrow> operation list" where
  "handles [] = []"
| "handles (GenerateVideos request (Inr h) # evs) = h # handles evs"
| "handles (GetVideosOperation h' (Inr h) # evs) = h # handles evs"
| "handles (_ # evs) = handles evs"

text \<open>
  The events of one iteration of the poll loop, given its status check.
\<close>

definition iteration :: "operation \<times> (js_exn + operation) \<Rightarrow> event list" where
  "iteration c = [SetTimeout 10000, Progress (js ''Checking video generation status...''),
                  GetVideosOperation (fst c) (snd c)]"

text \<open>
  The statements of \<open>generateVideo\<close> that follow the poll loop (validation of the
  result, download, finalisation), as a function of the handle the loop ended with.
  Lemma \<open>generateVideo_cases\<close> shows that \<open>generateVideo\<close> runs exactly these
  after the loop; the lemmas below refer to them by this name.
\<close>

definition after_poll :: "world \<Rightarrow> jsstring \<Rightarrow> operation \<Rightarrow> jsstring run" where
  "after_poll w apiKey operation =
     (case video_uri operation of
        None \<Rightarrow> throw (Error (js ''Video generation failed or returned no URI.''))
      | Some downloadLink \<Rightarrow>
        if downloadLink = []
        then throw (Error (js ''Video generation failed or returned no URI.''))
        else
          andThen (onProgress (js ''Downloading generated video...'')) (\<lambda>_.
          andThen (let url = downloadLink @ js ''&key='' @ apiKey;
                       r = fetch w url
                   in ([Fetch url r], settle r)) (\<lambda>response.
          if \<not> ok response
          then throw (Error (js ''Failed to download video: '' @ statusText response))
          else
            andThen ([ResponseBlob (body_blob response)], settle (body_blob response))
              (\<lambda>videoBlob.
            andThen (onProgress (js ''Finalizing video...'')) (\<lambda>_.
            let url = createObjectURL w videoBlob
            in ([CreateObjectURL videoBlob url], Returned url))))))"

section \<open>Example worlds\<close>

text \<open>
  A service that reports the job pending at submission and at the first status check and
  finished at the second, with variants: the job finished at submission, no API key, a
  finished job without videos, a download answered 404.
\<close>

definition cat_request :: generate_video_params where
  "cat_request = \<lparr>prompt = js ''a cat skateboarding'', imageFile = None\<rparr>"

definition png_file :: js_file where
  "png_file = \<lparr>file_type = js ''image/png'', file_bytes = [0x41, 0x42, 0x43]\<rparr>"

definition op_pending :: operation where
  "op_pending = \<lparr>op_name = js ''operations/1'', op_done = False, op_response = None\<rparr>"

definition op_finished :: operation where
  "op_finished =
     \<lparr>op_name = js ''operations/1'', op_done = True,
      op_response = Some \<lparr>generatedVideos =
        Some [\<lparr>gv_video = Some \<lparr>uri = Some (js ''https://videos.example/1?alt=media'')\<rparr>\<rparr>]\<rparr>\<rparr>"

definition op_empty :: operation where
  "op_empty = \<lparr>op_name = js ''operations/1'', op_done = True,
               op_response = Some \<lparr>generatedVideos = Some []\<rparr>\<rparr>"

definition demo_world :: world where
  "demo_world =
     \<lparr>env_API_KEY = Some (js ''KEY''),
      readAsDataURL = (\<lambda>f. Some (js ''data:image/png;base64,QUJD'')),
      generateVideos = (\<lambda>request. Inr op_pending),
      getVideosOperation = (\<lambda>k h. if k < 1 then Inr op_pending else Inr op_finished),
      fetch = (\<lambda>url. Inr \<lparr>http_status = 200, statusText = js ''OK'',
                              body_blob = Inr [1, 2, 3]\<rparr>),
      createObjectURL = (\<lambda>b. js ''blob:1'')\<rparr>"

definition ready_world :: world where
  "ready_world = demo_world\<lparr>generateVideos := (\<lambda>request. Inr op_finished)\<rparr>"

definition keyless_world :: world where
  "keyless_world = demo_world\<lparr>env_API_KEY := None\<rparr>"

definition empty_result_world :: world where
  "empty_result_world = demo_world\<lparr>getVideosOperation := (\<lambda>k h. Inr op_empty)\<rparr>"

definition not_found_world :: world where
  "not_found_world =
     demo_world\<lparr>fetch := (\<lambda>url. Inr \<lparr>http_status = 404, statusText = js ''Not Found'',
                                             body_blob = Inr []\<rparr>)\<rparr>"

definition blank_form :: ui_state where
  "blank_form = \<lparr>ui_prompt = js ''   '', ui_imageFile = None, status = Idle,
                  errorMessage = [], videoUrl = None\<rparr>"

definition cat_form :: ui_state where
  "cat_form = \<lparr>ui_prompt = js ''a cat skateboarding'', ui_imageFile = None, status = Idle,
                errorMessage = [], videoUrl = None\<rparr>"

section \<open>Basic lemmas\<close>

subsection \<open>Projections of a concatenation\<close>

lemma progress_messages_append [simp]:
  "progress_messages (xs @ ys) = progress_messages xs @ progress_messages ys"
  by (induction xs rule: progress_messages.induct) simp_all

lemma file_reads_append [simp]: "file_reads (xs @ ys) = file_reads xs @ file_reads ys"
  by (induction xs rule: file_reads.induct) simp_all

lemma submissions_append [simp]: "submissions (xs @ ys) = submissions xs @ submissions ys"
  by (induction xs rule: submissions.induct) simp_all

lemma timers_append [simp]: "timers (xs @ ys) = timers xs @ timers ys"
  by (induction xs rule: timers.induct) simp_all

lemma status_checks_append [simp]:
  "status_checks (xs @ ys) = status_checks xs @ status_checks ys"
  by (induction xs rule: status_checks.induct) simp_all

lemma downloads_append [simp]: "downloads (xs @ ys) = downloads xs @ downloads ys"
  by (induction xs rule: downloads.induct) simp_all

lemma object_urls_append [simp]: "object_urls (xs @ ys) = object_urls xs @ object_urls ys"
  by (induction xs rule: object_urls.induct) simp_all

lemma handles_append [simp]: "handles (xs @ ys) = handles xs @ handles ys"
  by (induction xs rule: handles.induct) simp_all

subsection \<open>String literals\<close>

lemma js_Nil [simp]: "js [] = []"
  by (simp add: js_def)

lemma js_eq_Nil [simp]: "(js s = []) = (s = [])"
  by (simp add: js_def)

lemma unat_of_char16: "unat (of_char a :: 16 word) = of_char a"
proof -
  have lt: "(of_char a :: nat) < 2 ^ 16"
  proof -
    have "(of_char a :: nat) < 256" by (rule nat_of_char_less_256)
    also have "(256 :: nat) < 2 ^ 16" by simp
    finally show ?thesis .
  qed
  have "unat (of_nat (of_char a) :: 16 word) = of_char a mod 2 ^ LENGTH(16)"
    by (rule unat_of_nat)
  also have "\<dots> = of_char a"
    using lt by simp
  finally show ?thesis
    by (simp only: of_nat_of_char)
qed

lemma of_char16_eq_iff [simp]: "((of_char a :: 16 word) = of_char b) = (a = b)"
proof
  assume "(of_char a :: 16 word) = of_char b"
  then have "unat (of_char a :: 16 word) = unat (of_char b :: 16 word)" by (rule arg_cong)
  then have "(of_char a :: nat) = of_char b" by (simp only: unat_of_char16)
  then show "a = b" by (simp only: of_char_eq_iff)
next
  assume "a = b"
  then show "(of_char a :: 16 word) = of_char b" by (rule arg_cong)
qed

lemma js_eq_iff [simp]: "(js s = js t) = (s = t)"
proof (induction s arbitrary: t)
  case Nil
  show ?case by (cases t) (simp_all add: js_def)
next
  case (Cons a s)
  show ?case
  proof (cases t)
    case Nil
    then show ?thesis by (simp add: js_def)
  next
    case (Cons b t')
    with Cons.IH [of t'] show ?thesis by (simp add: js_def)
  qed
qed

lemma js_append: "js s @ js t = js (s @ t)"
  by (simp add: js_def)

subsection \<open>Splitting a data URL at the comma\<close>

lemma split_no_separator: "c \<notin> set s \<Longrightarrow> split c s = [s]"
  by (induction s) auto

lemma split_at_first: "c \<notin> set header \<Longrightarrow> split c (header @ c # rest) = header # split c rest"
  by (induction header) auto

lemma split_data_url:
  "c \<notin> set header \<Longrightarrow> c \<notin> set body \<Longrightarrow>
   index (split c (header @ c # body)) (Suc 0) = Some body"
  by (simp add: split_at_first split_no_separator)

subsection \<open>Trimming\<close>

lemma trim_empty_iff: "(trim s = []) = (\<forall>c \<in> set s. is_whitespace c)"
proof -
  have "(\<forall>x \<in> set (dropWhile P xs). P x) = (dropWhile P xs = [])" for P and xs :: jsstring
  proof (cases "dropWhile P xs")
    case Nil
    show ?thesis unfolding Nil by simp
  next
    case (Cons y ys)
    then have "\<not> P y" using hd_dropWhile [of P xs] by simp
    then show ?thesis unfolding Cons by simp
  qed
  then show ?thesis
    by (simp add: trim_def dropWhile_eq_Nil_conv)
qed

subsection \<open>Sequencing\<close>

lemma andThen_Returned [simp]:
  "andThen (evs, Returned x) f = (evs @ fst (f x), snd (f x))"
  by (simp add: andThen_def split: prod.splits)

lemma andThen_Thrown [simp]: "andThen (evs, Thrown e) f = (evs, Thrown e)"
  by (simp add: andThen_def)

lemma andThen_Pending [simp]: "andThen (evs, Pending) f = (evs, Pending)"
  by (simp add: andThen_def)

lemma ret_eq [simp]: "ret x = ([], Returned x)"
  by (simp add: ret_def)

lemma throw_eq [simp]: "throw e = ([], Thrown e)"
  by (simp add: throw_def)

lemma andThen_onProgress [simp]:
  "andThen (onProgress m) f = (Progress m # fst (f ()), snd (f ()))"
  by (simp add: onProgress_def)

lemma fst_andThen:
  "fst (andThen m f) = fst m @ (case snd m of Returned x \<Rightarrow> fst (f x) | _ \<Rightarrow> [])"
  by (cases m; cases "snd m") auto

lemma snd_andThen:
  "snd (andThen m f) = (case snd m of Returned x \<Rightarrow> snd (f x) | Thrown e \<Rightarrow> Thrown e | Pending \<Rightarrow> Pending)"
  by (cases m; cases "snd m") auto

section \<open>The poll loop\<close>

lemma poll_loop_done [simp]: "op_done h \<Longrightarrow> poll_loop w fuel k h = ([], Returned h)"
  by (cases fuel) simp_all

lemma poll_loop_step:
  "\<not> op_done h \<Longrightarrow>
   poll_loop w (Suc fuel) k h =
     (case getVideosOperation w k h of
        Inl e \<Rightarrow>
          ([SetTimeout 10000, Progress (js ''Checking video generation status...''),
            GetVideosOperation h (Inl e)], Thrown e)
      | Inr h' \<Rightarrow>
          ([SetTimeout 10000, Progress (js ''Checking video generation status...''),
            GetVideosOperation h (Inr h')] @ fst (poll_loop w fuel (Suc k) h'),
           snd (poll_loop w fuel (Suc k) h')))"
  by (simp add: settle_def Let_def split: sum.splits)

lemma poll_loop_out_of_fuel [simp]: "\<not> op_done h \<Longrightarrow> poll_loop w 0 k h = ([], Pending)"
  by simp

declare poll_loop.simps [simp del]

text \<open>
  More fuel does not change a run that has ended: the fuel only bounds how long a run
  that is still polling is observed.
\<close>

lemma poll_loop_more_fuel:
  "snd (poll_loop w fuel k h) \<noteq> Pending \<Longrightarrow> poll_loop w (fuel + n) k h = poll_loop w fuel k h"
proof (induction fuel arbitrary: k h)
  case 0
  then show ?case by (cases "op_done h") simp_all
next
  case (Suc fuel)
  show ?case
  proof (cases "op_done h")
    case True
    then show ?thesis by simp
  next
    case False
    show ?thesis
    proof (cases "getVideosOperation w k h")
      case (Inl e)
      with False show ?thesis by (simp add: poll_loop_step)
    next
      case (Inr h')
      with False Suc.prems have "snd (poll_loop w fuel (Suc k) h') \<noteq> Pending"
        by (simp add: poll_loop_step)
      then have "poll_loop w (fuel + n) (Suc k) h' = poll_loop w fuel (Suc k) h'"
        by (rule Suc.IH)
      with False Inr show ?thesis by (simp add: poll_loop_step)
    qed
  qed
qed

lemma poll_loop_first_check:
  "\<not> op_done h \<Longrightarrow> status_checks (fst (poll_loop w (Suc fuel) k h)) \<noteq> []"
  by (cases "getVideosOperation w k h") (simp_all add: poll_loop_step)

lemma poll_loop_iterations:
  "fst (poll_loop w fuel k h) = concat (map iteration (status_checks (fst (poll_loop w fuel k h))))"
proof (induction fuel arbitrary: k h)
  case 0
  then show ?case by (cases "op_done h") simp_all
next
  case (Suc fuel)
  show ?case
  proof (cases "op_done h")
    case True
    then show ?thesis by simp
  next
    case False
    show ?thesis
    proof (cases "getVideosOperation w k h")
      case (Inl e)
      with False show ?thesis by (simp add: poll_loop_step iteration_def)
    next
      case (Inr h')
      have "fst (poll_loop w (Suc fuel) k h) = iteration (h, Inr h') @ fst (poll_loop w fuel (Suc k) h')"
        using False Inr by (simp add: poll_loop_step iteration_def)
      moreover have "status_checks (iteration (h, Inr h')) = [(h, Inr h')]"
        by (simp add: iteration_def)
      ultimately show ?thesis
        using Suc.IH [of "Suc k" h', symmetric] by simp
    qed
  qed
qed

lemma poll_loop_checks_not_done:
  "(h', r) \<in> set (status_checks (fst (poll_loop w fuel k h))) \<Longrightarrow> \<not> op_done h'"
proof (induction fuel arbitrary: k h)
  case 0
  then show ?case by (cases "op_done h") simp_all
next
  case (Suc fuel)
  show ?case
  proof (cases "op_done h")
    case True
    with Suc.prems show ?thesis by simp
  next
    case False
    with Suc show ?thesis
      by (cases "getVideosOperation w k h") (auto simp: poll_loop_step)
  qed
qed

lemma poll_loop_done_handle:
  "poll_loop w fuel k h = (evs, out) \<Longrightarrow> t \<in> set (h # handles evs) \<Longrightarrow> op_done t \<Longrightarrow>
   out = Returned t"
proof (induction fuel arbitrary: k h evs out)
  case 0
  then show ?case by (cases "op_done h") auto
next
  case (Suc fuel)
  show ?case
  proof (cases "op_done h")
    case True
    with Suc.prems show ?thesis by auto
  next
    case False
    show ?thesis
    proof (cases "getVideosOperation w k h")
      case (Inl e)
      with False Suc.prems show ?thesis by (auto simp: poll_loop_step)
    next
      case (Inr h')
      obtain evs' out' where run: "poll_loop w fuel (Suc k) h' = (evs', out')"
        by (cases "poll_loop w fuel (Suc k) h'")
      with False Inr Suc.prems have "out = out'" "t \<in> set (h' # handles evs')"
        by (auto simp: poll_loop_step)
      with Suc.IH [OF run] Suc.prems(3) show ?thesis by simp
    qed
  qed
qed

lemma poll_loop_done_handle':
  "t \<in> set (h # handles (fst (poll_loop w fuel k h))) \<Longrightarrow> op_done t \<Longrightarrow>
   snd (poll_loop w fuel k h) = Returned t"
  using poll_loop_done_handle [of w fuel k h "fst (poll_loop w fuel k h)" "snd (poll_loop w fuel k h)" t]
  by simp

lemma poll_loop_Returned:
  "poll_loop w fuel k h = (evs, Returned t) \<Longrightarrow>
   op_done t \<and> h # handles evs = map fst (status_checks evs) @ [t]"
proof (induction fuel arbitrary: k h evs)
  case 0
  then show ?case by (cases "op_done h") auto
next
  case (Suc fuel)
  show ?case
  proof (cases "op_done h")
    case True
    with Suc.prems show ?thesis by auto
  next
    case False
    show ?thesis
    proof (cases "getVideosOperation w k h")
      case (Inl e)
      with False Suc.prems show ?thesis by (auto simp: poll_loop_step)
    next
      case (Inr h')
      obtain evs' out' where run: "poll_loop w fuel (Suc k) h' = (evs', out')"
        by (cases "poll_loop w fuel (Suc k) h'")
      with False Inr Suc.prems have out: "out' = Returned t"
        and evs: "evs = [SetTimeout 10000, Progress (js ''Checking video generation status...''),
            GetVideosOperation h (Inr h')] @ evs'"
        by (auto simp: poll_loop_step)
      from Suc.IH [OF run [unfolded out]] show ?thesis by (simp add: evs)
    qed
  qed
qed

lemma iterations_projections:
  "progress_messages (concat (map iteration cs)) =
     replicate (length cs) (js ''Checking video generation status...'')"
  "timers (concat (map iteration cs)) = replicate (length cs) 10000"
  "submissions (concat (map iteration cs)) = []"
  "downloads (concat (map iteration cs)) = []"
  "object_urls (concat (map iteration cs)) = []"
  "file_reads (concat (map iteration cs)) = []"
  by (induction cs) (simp_all add: iteration_def)

lemma poll_loop_other_events:
  "progress_messages (fst (poll_loop w fuel k h)) =
     replicate (length (status_checks (fst (poll_loop w fuel k h)))) (js ''Checking video generation status...'')"
  "timers (fst (poll_loop w fuel k h)) =
     replicate (length (status_checks (fst (poll_loop w fuel k h)))) 10000"
  "submissions (fst (poll_loop w fuel k h)) = []"
  "downloads (fst (poll_loop w fuel k h)) = []"
  "object_urls (fst (poll_loop w fuel k h)) = []"
  "file_reads (fst (poll_loop w fuel k h)) = []"
  using iterations_projections [of "status_checks (fst (poll_loop w fuel k h))"]
  by (simp_all only: poll_loop_iterations [symmetric])

subsection \<open>Runs in the example worlds\<close>

lemma three: "(3::nat) = Suc (Suc (Suc 0))" by simp

lemma demo_world_fields:
  "env_API_KEY demo_world = Some (js ''KEY'')"
  "readAsDataURL demo_world f = Some (js ''data:image/png;base64,QUJD'')"
  "generateVideos demo_world request = Inr op_pending"
  "getVideosOperation demo_world k h = (if k < 1 then Inr op_pending else Inr op_finished)"
  "fetch demo_world url =
     Inr \<lparr>http_status = 200, statusText = js ''OK'', body_blob = Inr [1, 2, 3]\<rparr>"
  "createObjectURL demo_world b = js ''blob:1''"
  by (simp_all add: demo_world_def)

lemma ready_world_fields:
  "env_API_KEY ready_world = Some (js ''KEY'')"
  "generateVideos ready_world request = Inr op_finished"
  "fetch ready_world url =
     Inr \<lparr>http_status = 200, statusText = js ''OK'', body_blob = Inr [1, 2, 3]\<rparr>"
  "createObjectURL ready_world b = js ''blob:1''"
  by (simp_all add: ready_world_def demo_world_def)

lemma empty_result_world_fields:
  "env_API_KEY empty_result_world = Some (js ''KEY'')"
  "generateVideos empty_result_world request = Inr op_pending"
  "getVideosOperation empty_result_world k h = Inr op_empty"
  by (simp_all add: empty_result_world_def demo_world_def)

lemma not_found_world_fields:
  "env_API_KEY not_found_world = Some (js ''KEY'')"
  "generateVideos not_found_world request = Inr op_pending"
  "getVideosOperation not_found_world k h = (if k < 1 then Inr op_pending else Inr op_finished)"
  "fetch not_found_world url =
     Inr \<lparr>http_status = 404, statusText = js ''Not Found'', body_blob = Inr []\<rparr>"
  by (simp_all add: not_found_world_def demo_world_def)

lemma keyless_world_fields: "env_API_KEY keyless_world = None"
  by (simp add: keyless_world_def demo_world_def)

lemma handle_facts:
  "\<not> op_done op_pending" "op_done op_finished" "op_done op_empty"
  "video_uri op_finished = Some (js ''https://videos.example/1?alt=media'')"
  "video_uri op_empty = None"
  by (simp_all add: op_pending_def op_finished_def op_empty_def video_uri_def)

lemma demo_poll:
  "poll_loop demo_world 3 0 op_pending =
     ([SetTimeout 10000, Progress (js ''Checking video generation status...''),
       GetVideosOperation op_pending (Inr op_pending),
       SetTimeout 10000, Progress (js ''Checking video generation status...''),
       GetVideosOperation op_pending (Inr op_finished)], Returned op_finished)"
  unfolding three by (simp add: poll_loop_step handle_facts demo_world_fields)

lemma demo_poll_one:
  "poll_loop demo_world 1 0 op_pending =
     ([SetTimeout 10000, Progress (js ''Checking video generation status...''),
       GetVideosOperation op_pending (Inr op_pending)], Pending)"
  unfolding One_nat_def by (simp add: poll_loop_step handle_facts demo_world_fields)

lemma demo_run:
  "generateVideo demo_world 3 cat_request =
     ([Progress (js ''Sending request to AI...''),
       GenerateVideos \<lparr>req_model = js ''veo-2.0-generate-001'',
                       req_prompt = js ''a cat skateboarding'',
                       req_image = None, req_numberOfVideos = 1\<rparr> (Inr op_pending),
       Progress (js ''AI is warming up... This may take a few minutes.''),
       SetTimeout 10000, Progress (js ''Checking video generation status...''),
       GetVideosOperation op_pending (Inr op_pending),
       SetTimeout 10000, Progress (js ''Checking video generation status...''),
       GetVideosOperation op_pending (Inr op_finished),
       Progress (js ''Downloading generated video...''),
       Fetch (js ''https://videos.example/1?alt=media&key=KEY'')
         (Inr \<lparr>http_status = 200, statusText = js ''OK'', body_blob = Inr [1, 2, 3]\<rparr>),
       ResponseBlob (Inr [1, 2, 3]),
       Progress (js ''Finalizing video...''),
       CreateObjectURL [1, 2, 3] (js ''blob:1'')], Returned (js ''blob:1''))"
  by (simp add: generateVideo_def cat_request_def demo_world_fields settle_def Let_def
        demo_poll handle_facts ok_def js_append)

lemma demo_image_run:
  "submissions (fst (generateVideo demo_world 3 \<lparr>prompt = js ''a dog'', imageFile = Some png_file\<rparr>)) =
     [(\<lparr>req_model = js ''veo-2.0-generate-001'', req_prompt = js ''a dog'',
        req_image = Some \<lparr>imageBytes = Some (js ''QUJD''), mimeType = js ''image/png''\<rparr>,
        req_numberOfVideos = 1\<rparr>, Inr op_pending)]"
proof -
  have "index (split 0x2C (js ''data:image/png;base64'' @ 0x2C # js ''QUJD'')) (Suc 0) =
      Some (js ''QUJD'')"
    by (rule split_data_url) (simp_all add: js_def)
  moreover have "js ''data:image/png;base64,QUJD'' = js ''data:image/png;base64'' @ 0x2C # js ''QUJD''"
    by (simp add: js_def)
  ultimately have "index (split 0x2C (js ''data:image/png;base64,QUJD'')) (Suc 0) = Some (js ''QUJD'')"
    by simp
  then show ?thesis
    by (simp add: generateVideo_def fileToBase64_def demo_world_fields settle_def Let_def
        demo_poll handle_facts ok_def png_file_def)
qed

lemma ready_run:
  "generateVideo ready_world 3 cat_request =
     ([Progress (js ''Sending request to AI...''),
       GenerateVideos \<lparr>req_model = js ''veo-2.0-generate-001'',
                       req_prompt = js ''a cat skateboarding'',
                       req_image = None, req_numberOfVideos = 1\<rparr> (Inr op_finished),
       Progress (js ''AI is warming up... This may take a few minutes.''),
       Progress (js ''Downloading generated video...''),
       Fetch (js ''https://videos.example/1?alt=media&key=KEY'')
         (Inr \<lparr>http_status = 200, statusText = js ''OK'', body_blob = Inr [1, 2, 3]\<rparr>),
       ResponseBlob (Inr [1, 2, 3]),
       Progress (js ''Finalizing video...''),
       CreateObjectURL [1, 2, 3] (js ''blob:1'')], Returned (js ''blob:1''))"
  by (simp add: generateVideo_def cat_request_def ready_world_fields settle_def Let_def
        handle_facts ok_def js_append)

lemma empty_result_run:
  "generateVideo empty_result_world 3 cat_request =
     ([Progress (js ''Sending request to AI...''),
       GenerateVideos \<lparr>req_model = js ''veo-2.0-generate-001'',
                       req_prompt = js ''a cat skateboarding'',
                       req_image = None, req_numberOfVideos = 1\<rparr> (Inr op_pending),
       Progress (js ''AI is warming up... This may take a few minutes.''),
       SetTimeout 10000, Progress (js ''Checking video generation status...''),
       GetVideosOperation op_pending (Inr op_empty)],
      Thrown (Error (js ''Video generation failed or returned no URI.'')))"
  unfolding three
  by (simp add: generateVideo_def cat_request_def empty_result_world_fields settle_def Let_def
        poll_loop_step handle_facts)

lemma not_found_run:
  "generateVideo not_found_world 3 cat_request =
     ([Progress (js ''Sending request to AI...''),
       GenerateVideos \<lparr>req_model = js ''veo-2.0-generate-001'',
                       req_prompt = js ''a cat skateboarding'',
                       req_image = None, req_numberOfVideos = 1\<rparr> (Inr op_pending),
       Progress (js ''AI is warming up... This may take a few minutes.''),
       SetTimeout 10000, Progress (js ''Checking video generation status...''),
       GetVideosOperation op_pending (Inr op_pending),
       SetTimeout 10000, Progress (js ''Checking video generation status...''),
       GetVideosOperation op_pending (Inr op_finished),
       Progress (js ''Downloading generated video...''),
       Fetch (js ''https://videos.example/1?alt=media&key=KEY'')
         (Inr \<lparr>http_status = 404, statusText = js ''Not Found'', body_blob = Inr []\<rparr>)],
      Thrown (Error (js ''Failed to download video: Not Found'')))"
  unfolding three
  by (simp add: generateVideo_def cat_request_def not_found_world_fields settle_def Let_def
        poll_loop_step handle_facts ok_def js_append)

text \<open>
  Claim C1, as amended. The claim says the loop makes at least one status check for every
  submitted job; the loop is a \<open>while\<close> loop, so it makes none when the submitted
  handle is already done. What holds: every status check is made on a handle whose
  \<open>done\<close> flag is false; a handle that is already done ends the loop with no check;
  a handle that is not done gets at least one check (given fuel to observe it); the loop
  returns only a handle whose flag is true, after exactly one check for each handle seen
  before it; and as soon as a handle seen is done, the loop returns that handle.
\<close>

theorem poll_loop_exit:
  assumes run: "poll_loop w fuel k operation = (evs, out)"
  shows "(\<forall>c \<in> set (status_checks evs). \<not> op_done (fst c)) \<and>
         (op_done operation \<longrightarrow> evs = [] \<and> out = Returned operation) \<and>
         (\<not> op_done operation \<and> 0 < fuel \<longrightarrow> status_checks evs \<noteq> []) \<and>
         (\<forall>t. out = Returned t \<longrightarrow>
            op_done t \<and> operation # handles evs = map fst (status_checks evs) @ [t]) \<and>
         (\<forall>t \<in> set (operation # handles evs). op_done t \<longrightarrow> out = Returned t)"
proof -
  have checks: "\<forall>c \<in> set (status_checks evs). \<not> op_done (fst c)"
  proof
    fix c assume "c \<in> set (status_checks evs)"
    then have "(fst c, snd c) \<in> set (status_checks (fst (poll_loop w fuel k operation)))"
      using run by simp
    then show "\<not> op_done (fst c)" by (rule poll_loop_checks_not_done)
  qed
  have already: "op_done operation \<longrightarrow> evs = [] \<and> out = Returned operation"
    using run by auto
  have first: "\<not> op_done operation \<and> 0 < fuel \<longrightarrow> status_checks evs \<noteq> []"
  proof
    assume a: "\<not> op_done operation \<and> 0 < fuel"
    then obtain fuel' where "fuel = Suc fuel'" by (cases fuel) auto
    with a poll_loop_first_check [of operation w fuel' k] run
    show "status_checks evs \<noteq> []" by simp
  qed
  have returned: "\<forall>t. out = Returned t \<longrightarrow>
      op_done t \<and> operation # handles evs = map fst (status_checks evs) @ [t]"
    using run poll_loop_Returned [of w fuel k operation evs] by blast
  have seen: "\<forall>t \<in> set (operation # handles evs). op_done t \<longrightarrow> out = Returned t"
    using poll_loop_done_handle [OF run] by blast
  from checks already first returned seen show ?thesis by blast
qed

theorem poll_loop_exit_witness:
  "snd (poll_loop demo_world 3 0 op_pending) = Returned op_finished \<and>
   op_done op_finished \<and>
   op_pending # handles (fst (poll_loop demo_world 3 0 op_pending)) =
     map fst (status_checks (fst (poll_loop demo_world 3 0 op_pending))) @ [op_finished] \<and>
   length (status_checks (fst (poll_loop demo_world 3 0 op_pending))) = 2"
proof -
  let ?P = "poll_loop demo_world 3 0 op_pending"
  have out: "snd ?P = Returned op_finished" by (simp add: demo_poll)
  have n: "length (status_checks (fst ?P)) = 2" by (simp add: demo_poll)
  have run: "?P = (fst ?P, snd ?P)" by simp
  from poll_loop_exit [OF run] out n show ?thesis by simp
qed

text \<open>
  Claim C1 as stated fails: the service answers the submission with a finished job, the
  call succeeds, and no status check is made.
\<close>

theorem at_least_one_check_counterexample:
  "submissions (fst (generateVideo ready_world 3 cat_request)) \<noteq> [] \<and>
   snd (generateVideo ready_world 3 cat_request) = Returned (js ''blob:1'') \<and>
   \<not> 1 \<le> length (status_checks (fst (generateVideo ready_world 3 cat_request)))"
  by (simp add: ready_run)

text \<open>
  Claim C2, as amended. The claim orders an iteration as timer, status check, progress
  message; the code reports progress before it checks. What holds: the events of the
  loop are, for each status check in turn, the 10000 ms timer, then the message
  "Checking video generation status...", then the status check; and every timer of the
  loop is 10000 ms.
\<close>

theorem poll_loop_iteration_order:
  "fst (poll_loop w fuel k operation) =
     concat (map (\<lambda>c. [SetTimeout 10000,
                       Progress (js ''Checking video generation status...''),
                       GetVideosOperation (fst c) (snd c)])
              (status_checks (fst (poll_loop w fuel k operation)))) \<and>
   timers (fst (poll_loop w fuel k operation)) =
     replicate (length (status_checks (fst (poll_loop w fuel k operation)))) 10000"
proof -
  have "iteration = (\<lambda>c. [SetTimeout 10000,
                       Progress (js ''Checking video generation status...''),
                       GetVideosOperation (fst c) (snd c)])"
    by (rule ext) (simp add: iteration_def)
  then show ?thesis
    using poll_loop_iterations [of w fuel k operation] poll_loop_other_events(2) [of w fuel k operation]
    by (simp only:)
qed

theorem poll_loop_iteration_order_witness:
  "fst (poll_loop demo_world 3 0 op_pending) =
     concat (map (\<lambda>c. [SetTimeout 10000,
                       Progress (js ''Checking video generation status...''),
                       GetVideosOperation (fst c) (snd c)])
              (status_checks (fst (poll_loop demo_world 3 0 op_pending)))) \<and>
   timers (fst (poll_loop demo_world 3 0 op_pending)) =
     replicate (length (status_checks (fst (poll_loop demo_world 3 0 op_pending)))) 10000"
  by (rule poll_loop_iteration_order)

text \<open>
  Claim C2 as stated fails: in a run of one iteration the events are not timer, status
  check, message, but timer, message, status check.
\<close>

theorem refetch_before_progress_counterexample:
  "fst (poll_loop demo_world 1 0 op_pending) \<noteq>
     [SetTimeout 10000, GetVideosOperation op_pending (Inr op_pending),
      Progress (js ''Checking video generation status...'')] \<and>
   fst (poll_loop demo_world 1 0 op_pending) =
     [SetTimeout 10000, Progress (js ''Checking video generation status...''),
      GetVideosOperation op_pending (Inr op_pending)]"
  using demo_poll_one by simp

section \<open>The whole call\<close>

lemma after_poll_no_uri:
  "\<not> truthy (video_uri t) \<Longrightarrow>
   after_poll w apiKey t = ([], Thrown (Error (js ''Video generation failed or returned no URI.'')))"
  by (cases "video_uri t") (simp_all add: after_poll_def)

lemma after_poll_uri:
  "video_uri t = Some link \<Longrightarrow> link \<noteq> [] \<Longrightarrow>
   after_poll w apiKey t =
     (case fetch w (link @ js ''&key='' @ apiKey) of
        Inl e \<Rightarrow>
          ([Progress (js ''Downloading generated video...''),
            Fetch (link @ js ''&key='' @ apiKey) (Inl e)], Thrown e)
      | Inr response \<Rightarrow>
          if \<not> ok response
          then ([Progress (js ''Downloading generated video...''),
                 Fetch (link @ js ''&key='' @ apiKey) (Inr response)],
                Thrown (Error (js ''Failed to download video: '' @ statusText response)))
          else
            (case body_blob response of
               Inl e \<Rightarrow>
                 ([Progress (js ''Downloading generated video...''),
                   Fetch (link @ js ''&key='' @ apiKey) (Inr response),
                   ResponseBlob (Inl e)], Thrown e)
             | Inr videoBlob \<Rightarrow>
                 ([Progress (js ''Downloading generated video...''),
                   Fetch (link @ js ''&key='' @ apiKey) (Inr response),
                   ResponseBlob (Inr videoBlob),
                   Progress (js ''Finalizing video...''),
                   CreateObjectURL videoBlob (createObjectURL w videoBlob)],
                  Returned (createObjectURL w videoBlob))))"
  by (simp add: after_poll_def settle_def Let_def split: sum.splits)

lemma after_poll_quiet [simp]:
  "handles (fst (after_poll w apiKey t)) = []"
  "submissions (fst (after_poll w apiKey t)) = []"
  "status_checks (fst (after_poll w apiKey t)) = []"
  "timers (fst (after_poll w apiKey t)) = []"
  "file_reads (fst (after_poll w apiKey t)) = []"
proof -
  consider "\<not> truthy (video_uri t)" | link where "video_uri t = Some link" "link \<noteq> []"
    by (cases "video_uri t") auto
  then have "handles (fst (after_poll w apiKey t)) = [] \<and>
    submissions (fst (after_poll w apiKey t)) = [] \<and>
    status_checks (fst (after_poll w apiKey t)) = [] \<and>
    timers (fst (after_poll w apiKey t)) = [] \<and>
    file_reads (fst (after_poll w apiKey t)) = []"
  proof cases
    case 1
    then show ?thesis by (simp add: after_poll_no_uri)
  next
    case 2
    then show ?thesis by (simp add: after_poll_uri split: sum.splits)
  qed
  then show "handles (fst (after_poll w apiKey t)) = []"
    "submissions (fst (after_poll w apiKey t)) = []"
    "status_checks (fst (after_poll w apiKey t)) = []"
    "timers (fst (after_poll w apiKey t)) = []"
    "file_reads (fst (after_poll w apiKey t)) = []"
    by simp_all
qed

text \<open>
  The four ways a call goes: no API key; the image cannot be read; the submission is
  rejected; or the job is submitted and polled, and the statements after the loop run on
  the handle the loop returns.
\<close>

lemma generateVideo_cases [case_names NoKey ReadFailed SubmitFailed Polled]:
  fixes w :: world and params :: generate_video_params
  obtains
    (NoKey) "\<not> truthy (env_API_KEY w)"
      "\<And>fuel. generateVideo w fuel params =
         ([], Thrown (Error (js ''API_KEY environment variable not set'')))"
  | (ReadFailed) f where "truthy (env_API_KEY w)"
      "imageFile params = Some f" "readAsDataURL w f = None"
      "\<And>fuel. generateVideo w fuel params =
         ([Progress (js ''Encoding image...''), ReadAsDataURL f None], Thrown NonError)"
  | (SubmitFailed) apiKey pre payload e where
      "env_API_KEY w = Some apiKey" "apiKey \<noteq> []"
      "imageFile params = None \<and> pre = [] \<and> payload = None \<or>
       (\<exists>f result. imageFile params = Some f \<and> readAsDataURL w f = Some result \<and>
          pre = [Progress (js ''Encoding image...''), ReadAsDataURL f (Some result)] \<and>
          payload = Some \<lparr>imageBytes = index (split 0x2C result) 1, mimeType = file_type f\<rparr>)"
      "generateVideos w \<lparr>req_model = js ''veo-2.0-generate-001'', req_prompt = prompt params,
                          req_image = payload, req_numberOfVideos = 1\<rparr> = Inl e"
      "\<And>fuel. generateVideo w fuel params =
         (pre @ [Progress (js ''Sending request to AI...''),
                 GenerateVideos \<lparr>req_model = js ''veo-2.0-generate-001'',
                                  req_prompt = prompt params,
                                  req_image = payload, req_numberOfVideos = 1\<rparr> (Inl e)],
          Thrown e)"
  | (Polled) apiKey pre payload operation where
      "env_API_KEY w = Some apiKey" "apiKey \<noteq> []"
      "imageFile params = None \<and> pre = [] \<and> payload = None \<or>
       (\<exists>f result. imageFile params = Some f \<and> readAsDataURL w f = Some result \<and>
          pre = [Progress (js ''Encoding image...''), ReadAsDataURL f (Some result)] \<and>
          payload = Some \<lparr>imageBytes = index (split 0x2C result) 1, mimeType = file_type f\<rparr>)"
      "generateVideos w \<lparr>req_model = js ''veo-2.0-generate-001'', req_prompt = prompt params,
                          req_image = payload, req_numberOfVideos = 1\<rparr> = Inr operation"
      "\<And>fuel. generateVideo w fuel params =
         andThen
           (pre @ [Progress (js ''Sending request to AI...''),
                   GenerateVideos \<lparr>req_model = js ''veo-2.0-generate-001'',
                                    req_prompt = prompt params,
                                    req_image = payload, req_numberOfVideos = 1\<rparr>
                     (Inr operation),
                   Progress (js ''AI is warming up... This may take a few minutes.'')] @
              fst (poll_loop w fuel 0 operation),
            snd (poll_loop w fuel 0 operation))
           (after_poll w apiKey)"
proof -
  have unfold: "generateVideo w fuel params =
     (case env_API_KEY w of
        None \<Rightarrow> throw (Error (js ''API_KEY environment variable not set''))
      | Some apiKey \<Rightarrow>
        if apiKey = [] then throw (Error (js ''API_KEY environment variable not set''))
        else
          andThen (case imageFile params of
                     None \<Rightarrow> ret None
                   | Some f \<Rightarrow>
                       andThen (onProgress (js ''Encoding image...'')) (\<lambda>_.
                       andThen (fileToBase64 w f) (\<lambda>base64Data.
                       ret (Some \<lparr>imageBytes = base64Data, mimeType = file_type f\<rparr>))))
          (\<lambda>imagePayload.
          andThen (onProgress (js ''Sending request to AI...'')) (\<lambda>_.
          andThen (let request = \<lparr>req_model = js ''veo-2.0-generate-001'',
                                  req_prompt = prompt params,
                                  req_image = imagePayload,
                                  req_numberOfVideos = 1\<rparr>;
                       r = generateVideos w request
                   in ([GenerateVideos request r], settle r)) (\<lambda>operation.
          andThen (onProgress (js ''AI is warming up... This may take a few minutes.'')) (\<lambda>_.
          andThen (poll_loop w fuel 0 operation) (after_poll w apiKey))))))" for fuel
    unfolding generateVideo_def after_poll_def by (rule refl)
  show thesis
  proof (cases "env_API_KEY w")
    case None
    then show thesis by (intro NoKey) (simp_all add: unfold)
  next
    case (Some apiKey)
    show thesis
    proof (cases "apiKey = []")
      case True
      with Some show thesis by (intro NoKey) (simp_all add: unfold)
    next
      case key: False
      show thesis
      proof (cases "imageFile params")
        case None
        show thesis
        proof (cases "generateVideos w \<lparr>req_model = js ''veo-2.0-generate-001'', req_prompt = prompt params,
                          req_image = None, req_numberOfVideos = 1\<rparr>")
          case (Inl e)
          with Some key None show thesis
            by (intro SubmitFailed [of apiKey "[]" None e]) (simp_all add: unfold settle_def)
        next
          case (Inr operation)
          with Some key None show thesis
            by (intro Polled [of apiKey "[]" None operation])
               (simp_all add: unfold settle_def fst_andThen snd_andThen prod_eq_iff)
        qed
      next
        case img: (Some f)
        show thesis
        proof (cases "readAsDataURL w f")
          case None
          with Some key img show thesis
            by (intro ReadFailed [of f]) (simp_all add: unfold fileToBase64_def)
        next
          case read: (Some result)
          let ?payload = "Some \<lparr>imageBytes = index (split 0x2C result) 1, mimeType = file_type f\<rparr>"
          show thesis
          proof (cases "generateVideos w \<lparr>req_model = js ''veo-2.0-generate-001'', req_prompt = prompt params,
                          req_image = ?payload, req_numberOfVideos = 1\<rparr>")
            case (Inl e)
            with Some key img read show thesis
              by (intro SubmitFailed [of apiKey "[Progress (js ''Encoding image...''), ReadAsDataURL f (Some result)]" ?payload e])
                 (simp_all add: unfold settle_def fileToBase64_def)
          next
            case (Inr operation)
            with Some key img read show thesis
              by (intro Polled [of apiKey "[Progress (js ''Encoding image...''), ReadAsDataURL f (Some result)]" ?payload operation])
                 (simp_all add: unfold settle_def fileToBase64_def fst_andThen snd_andThen prod_eq_iff)
          qed
        qed
      qed
    qed
  qed
qed

text \<open>
  A call that has returned or thrown does so whatever more fuel is given: the fuel only
  separates the runs that have ended from those still polling.
\<close>

lemma generateVideo_more_fuel:
  assumes "snd (generateVideo w fuel params) \<noteq> Pending"
  shows "generateVideo w (fuel + n) params = generateVideo w fuel params"
proof (cases w params rule: generateVideo_cases)
  case NoKey
  then show ?thesis by simp
next
  case (ReadFailed f)
  then show ?thesis by simp
next
  case (SubmitFailed apiKey pre payload e)
  then show ?thesis by simp
next
  case (Polled apiKey pre payload operation)
  from assms Polled(5) [of fuel] have "snd (poll_loop w fuel 0 operation) \<noteq> Pending"
    by (cases "snd (poll_loop w fuel 0 operation)") simp_all
  then have "poll_loop w (fuel + n) 0 operation = poll_loop w fuel 0 operation"
    by (rule poll_loop_more_fuel)
  with Polled(5) [of fuel] Polled(5) [of "fuel + n"] show ?thesis by simp
qed

lemma generateVideo_no_key:
  "\<not> truthy (env_API_KEY w) \<Longrightarrow>
   generateVideo w fuel params = ([], Thrown (Error (js ''API_KEY environment variable not set'')))"
  by (cases "env_API_KEY w") (simp_all add: generateVideo_def)

lemma generateVideo_submissions:
  "submissions (fst (generateVideo w fuel params)) = [] \<or>
   (\<exists>payload r. submissions (fst (generateVideo w fuel params)) =
      [(\<lparr>req_model = js ''veo-2.0-generate-001'', req_prompt = prompt params,
         req_image = payload, req_numberOfVideos = 1\<rparr>, r)])"
proof (cases w params rule: generateVideo_cases)
  case NoKey
  then show ?thesis by simp
next
  case (ReadFailed f)
  then show ?thesis by simp
next
  case (SubmitFailed apiKey pre payload e)
  then show ?thesis by auto
next
  case (Polled apiKey pre payload operation)
  from Polled(3) have pre: "submissions pre = []" by auto
  with Polled(5) [of fuel] show ?thesis
    by (cases "snd (poll_loop w fuel 0 operation)") (simp_all add: poll_loop_other_events)
qed

lemma generateVideo_submits:
  assumes "truthy (env_API_KEY w)" "\<forall>f. imageFile params = Some f \<longrightarrow> readAsDataURL w f \<noteq> None"
  shows "submissions (fst (generateVideo w fuel params)) \<noteq> []"
proof (cases w params rule: generateVideo_cases)
  case NoKey
  with assms show ?thesis by simp
next
  case (ReadFailed f)
  with assms show ?thesis by simp
next
  case (SubmitFailed apiKey pre payload e)
  then show ?thesis by auto
next
  case (Polled apiKey pre payload operation)
  then show ?thesis
    by (cases "snd (poll_loop w fuel 0 operation)") simp_all
qed

lemma handleSubmit_events:
  "trim (ui_prompt ui) \<noteq> [] \<Longrightarrow>
   submissions (fst (handleSubmit w fuel ui)) =
   submissions (fst (generateVideo w fuel \<lparr>prompt = ui_prompt ui, imageFile = ui_imageFile ui\<rparr>))"
  by (simp add: handleSubmit_def Let_def split: prod.splits outcome.splits)

text \<open>
  \<open>generateVideo\<close> itself does not look at the prompt: called with an empty prompt
  it submits it.
\<close>

lemma generateVideo_submits_empty_prompt:
  "submissions (fst (generateVideo demo_world 3 \<lparr>prompt = [], imageFile = None\<rparr>)) \<noteq> []"
  by (rule generateVideo_submits) (simp_all add: demo_world_fields)

text \<open>
  Claim C3. The prompt check is in \<open>handleSubmit\<close>: for a prompt that is empty or
  all whitespace the handler does nothing outside the component (no event, so no
  submission) and ends in the error state with the message "Please enter a prompt for
  your video."; in every run a submission, when there is one, is the only one and carries
  the prompt as typed; and with a prompt that is not blank, an API key and a readable
  image (or none) there is exactly one submission.
\<close>

theorem blank_prompt_rejected_else_one_submission:
  "((\<forall>c \<in> set (ui_prompt ui). is_whitespace c) \<longrightarrow>
      handleSubmit w fuel ui =
        ([], ui\<lparr>errorMessage := js ''Please enter a prompt for your video.'',
                 status := Failed\<rparr>)) \<and>
   (\<forall>request r. (request, r) \<in> set (submissions (fst (handleSubmit w fuel ui))) \<longrightarrow>
      submissions (fst (handleSubmit w fuel ui)) = [(request, r)] \<and>
      req_prompt request = ui_prompt ui) \<and>
   ((\<exists>c \<in> set (ui_prompt ui). \<not> is_whitespace c) \<and> truthy (env_API_KEY w) \<and>
    (\<forall>f. ui_imageFile ui = Some f \<longrightarrow> readAsDataURL w f \<noteq> None) \<longrightarrow>
      length (submissions (fst (handleSubmit w fuel ui))) = 1)"
proof (cases "trim (ui_prompt ui) = []")
  case True
  then have "handleSubmit w fuel ui =
        ([], ui\<lparr>errorMessage := js ''Please enter a prompt for your video.'',
                 status := Failed\<rparr>)"
    by (simp add: handleSubmit_def)
  with True show ?thesis by (simp add: trim_empty_iff)
next
  case False
  let ?params = "\<lparr>prompt = ui_prompt ui, imageFile = ui_imageFile ui\<rparr>"
  note sub = handleSubmit_events [OF False, of w fuel]
  from False have nonblank: "\<not> (\<forall>c \<in> set (ui_prompt ui). is_whitespace c)"
    by (simp add: trim_empty_iff)
  have one: "\<forall>request r. (request, r) \<in> set (submissions (fst (handleSubmit w fuel ui))) \<longrightarrow>
      submissions (fst (handleSubmit w fuel ui)) = [(request, r)] \<and>
      req_prompt request = ui_prompt ui"
    using generateVideo_submissions [of w fuel ?params] by (auto simp: sub)
  have reach: "truthy (env_API_KEY w) \<and>
    (\<forall>f. ui_imageFile ui = Some f \<longrightarrow> readAsDataURL w f \<noteq> None) \<longrightarrow>
      length (submissions (fst (handleSubmit w fuel ui))) = 1"
    using generateVideo_submissions [of w fuel ?params] generateVideo_submits [of w ?params fuel]
    by (auto simp: sub)
  from nonblank one reach show ?thesis by blast
qed

theorem blank_prompt_rejected_else_one_submission_witness:
  "handleSubmit demo_world 3 blank_form =
     ([], blank_form\<lparr>errorMessage := js ''Please enter a prompt for your video.'',
                     status := Failed\<rparr>) \<and>
   length (submissions (fst (handleSubmit demo_world 3 cat_form))) = 1"
proof -
  have blank: "\<forall>c \<in> set (ui_prompt blank_form). is_whitespace c"
    by (simp add: blank_form_def js_def is_whitespace_def)
  have "\<not> is_whitespace (of_char CHR ''a'')"
    by (simp add: is_whitespace_def)
  then have nonblank: "\<exists>c \<in> set (ui_prompt cat_form). \<not> is_whitespace c"
    by (simp add: cat_form_def js_def)
  have key: "truthy (env_API_KEY demo_world)"
    by (simp add: demo_world_fields)
  have img: "\<forall>f. ui_imageFile cat_form = Some f \<longrightarrow> readAsDataURL demo_world f \<noteq> None"
    by (simp add: cat_form_def)
  from blank_prompt_rejected_else_one_submission [of blank_form demo_world 3] blank
    blank_prompt_rejected_else_one_submission [of cat_form demo_world 3] nonblank key img
  show ?thesis by blast
qed

text \<open>
  Claim C4. Without an API key (unset or empty) the call throws
  "API_KEY environment variable not set" and has no event at all: no submission, no
  status check, no download.
\<close>

theorem missing_credential_fails_without_network:
  "\<not> truthy (env_API_KEY w) \<Longrightarrow>
   generateVideo w fuel params =
     ([], Thrown (Error (js ''API_KEY environment variable not set'')))"
  by (rule generateVideo_no_key)

theorem missing_credential_fails_without_network_witness:
  "generateVideo keyless_world 3 cat_request =
     ([], Thrown (Error (js ''API_KEY environment variable not set'')))"
proof -
  have "\<not> truthy (env_API_KEY keyless_world)"
    by (simp add: keyless_world_fields)
  then show ?thesis by (rule missing_credential_fails_without_network)
qed

text \<open>
  Claim C5. If a handle returned by the service is done and has no video URI (any link of
  \<open>response.generatedVideos[0].video.uri\<close> missing, or the URI empty), the call throws
  "Video generation failed or returned no URI." and makes no download request.
\<close>

theorem no_uri_no_download:
  assumes run: "generateVideo w fuel params = (evs, out)"
    and t: "t \<in> set (handles evs)" "op_done t" "\<not> truthy (video_uri t)"
  shows "out = Thrown (Error (js ''Video generation failed or returned no URI.'')) \<and>
         downloads evs = []"
proof (cases w params rule: generateVideo_cases)
  case NoKey
  with run t show ?thesis by auto
next
  case (ReadFailed f)
  with run t show ?thesis by auto
next
  case (SubmitFailed apiKey pre payload e)
  with run t show ?thesis by auto
next
  case (Polled apiKey pre payload operation)
  let ?P = "poll_loop w fuel 0 operation"
  from Polled(3) have pre: "handles pre = []" "downloads pre = []" by auto
  have "t \<in> set (operation # handles (fst ?P))"
    using run t(1) Polled(5) [of fuel] pre by (cases "snd ?P") auto
  then have "snd ?P = Returned t" using t(2) by (rule poll_loop_done_handle')
  with run Polled(5) [of fuel] pre t(3) show ?thesis
    by (auto simp: after_poll_no_uri poll_loop_other_events)
qed

theorem no_uri_no_download_witness:
  "snd (generateVideo empty_result_world 3 cat_request) =
     Thrown (Error (js ''Video generation failed or returned no URI.'')) \<and>
   downloads (fst (generateVideo empty_result_world 3 cat_request)) = []"
proof -
  let ?X = "generateVideo empty_result_world 3 cat_request"
  have run: "?X = (fst ?X, snd ?X)" by simp
  have seen: "op_empty \<in> set (handles (fst ?X))" by (simp add: empty_result_run)
  have fin: "op_done op_empty" by (simp add: handle_facts)
  have none: "\<not> truthy (video_uri op_empty)" by (simp add: handle_facts)
  from no_uri_no_download [OF run seen fin none] show ?thesis .
qed

text \<open>
  Claim C6. If a handle returned by the service is done and has a video URI, the call
  makes exactly one download request, to the URI followed by \<open>&key=\<close> and the API key.
\<close>

theorem one_download_with_key:
  assumes run: "generateVideo w fuel params = (evs, out)"
    and t: "t \<in> set (handles evs)" "op_done t" "video_uri t = Some link" "link \<noteq> []"
    and key: "env_API_KEY w = Some apiKey"
  shows "map fst (downloads evs) = [link @ js ''&key='' @ apiKey]"
proof (cases w params rule: generateVideo_cases)
  case NoKey
  with run t show ?thesis by auto
next
  case (ReadFailed f)
  with run t show ?thesis by auto
next
  case (SubmitFailed apiKey pre payload e)
  with run t show ?thesis by auto
next
  case (Polled apiKey' pre payload operation)
  let ?P = "poll_loop w fuel 0 operation"
  from Polled(1) key have same: "apiKey' = apiKey" by simp
  from Polled(3) have pre: "handles pre = []" "downloads pre = []" by auto
  have "t \<in> set (operation # handles (fst ?P))"
    using run t(1) Polled(5) [of fuel] pre by (cases "snd ?P") auto
  then have "snd ?P = Returned t" using t(2) by (rule poll_loop_done_handle')
  with run Polled(5) [of fuel] pre t(3,4) same show ?thesis
    by (auto simp: after_poll_uri poll_loop_other_events split: sum.splits if_splits)
qed

theorem one_download_with_key_witness:
  "map fst (downloads (fst (generateVideo demo_world 3 cat_request))) =
     [js ''https://videos.example/1?alt=media'' @ js ''&key='' @ js ''KEY'']"
proof -
  let ?X = "generateVideo demo_world 3 cat_request"
  have run: "?X = (fst ?X, snd ?X)" by simp
  have seen: "op_finished \<in> set (handles (fst ?X))" by (simp add: demo_run)
  have fin: "op_done op_finished" by (simp add: handle_facts)
  have link: "video_uri op_finished = Some (js ''https://videos.example/1?alt=media'')"
    by (simp add: handle_facts)
  have nonempty: "js ''https://videos.example/1?alt=media'' \<noteq> []" by simp
  have key: "env_API_KEY demo_world = Some (js ''KEY'')" by (simp add: demo_world_fields)
  from one_download_with_key [OF run seen fin link nonempty key] show ?thesis .
qed

text \<open>
  Claim C7. If the download is answered with a status outside 200..299, the call throws
  "Failed to download video: " followed by the status text, and no object URL is created.
\<close>

theorem failed_download_throws:
  assumes run: "generateVideo w fuel params = (evs, out)"
    and dl: "(url, Inr response) \<in> set (downloads evs)"
    and status: "http_status response < 200 \<or> 299 < http_status response"
  shows "out = Thrown (Error (js ''Failed to download video: '' @ statusText response)) \<and>
         object_urls evs = []"
proof (cases w params rule: generateVideo_cases)
  case NoKey
  with run dl show ?thesis by auto
next
  case (ReadFailed f)
  with run dl show ?thesis by auto
next
  case (SubmitFailed apiKey pre payload e)
  with run dl show ?thesis by auto
next
  case (Polled apiKey pre payload operation)
  let ?P = "poll_loop w fuel 0 operation"
  from Polled(3) have pre: "object_urls pre = []" "downloads pre = []" by auto
  from status have nok: "\<not> ok response" by (auto simp: ok_def)
  show ?thesis
  proof (cases "snd ?P")
    case (Returned t)
    show ?thesis
    proof (cases "truthy (video_uri t)")
      case True
      then obtain link where link: "video_uri t = Some link" "link \<noteq> []"
        by (cases "video_uri t") auto
      with run dl Polled(5) [of fuel] pre Returned nok show ?thesis
        by (auto simp: after_poll_uri poll_loop_other_events split: sum.splits if_splits)
    next
      case False
      with run dl Polled(5) [of fuel] pre Returned show ?thesis
        by (auto simp: after_poll_no_uri poll_loop_other_events)
    qed
  next
    case (Thrown e)
    with run dl Polled(5) [of fuel] pre show ?thesis by (auto simp: poll_loop_other_events)
  next
    case Pending
    with run dl Polled(5) [of fuel] pre show ?thesis by (auto simp: poll_loop_other_events)
  qed
qed

theorem failed_download_throws_witness:
  "snd (generateVideo not_found_world 3 cat_request) =
     Thrown (Error (js ''Failed to download video: '' @ js ''Not Found'')) \<and>
   object_urls (fst (generateVideo not_found_world 3 cat_request)) = []"
proof -
  let ?X = "generateVideo not_found_world 3 cat_request"
  let ?r = "\<lparr>http_status = 404, statusText = js ''Not Found'', body_blob = Inr []\<rparr>"
  have run: "?X = (fst ?X, snd ?X)" by simp
  have dl: "(js ''https://videos.example/1?alt=media&key=KEY'', Inr ?r) \<in> set (downloads (fst ?X))"
    by (simp add: not_found_run)
  have st: "http_status ?r < 200 \<or> 299 < http_status ?r" by simp
  from failed_download_throws [OF run dl st] show ?thesis by simp
qed

text \<open>
  Claim C8, as amended. The claim gives the second message as "AI is warming up..."; the
  code sends "AI is warming up... This may take a few minutes.". What holds: in a run
  without image that returns, the messages are "Sending request to AI...",
  "AI is warming up... This may take a few minutes.", one "Checking video generation
  status..." for each status check, "Downloading generated video...",
  "Finalizing video..."; the one submission has no image; and the value returned is the
  object URL created for the downloaded blob.
\<close>

theorem no_image_run_progress:
  assumes run: "generateVideo w fuel \<lparr>prompt = p, imageFile = None\<rparr> = (evs, Returned url)"
  shows "progress_messages evs =
           [js ''Sending request to AI...'',
            js ''AI is warming up... This may take a few minutes.''] @
           replicate (length (status_checks evs)) (js ''Checking video generation status...'') @
           [js ''Downloading generated video...'', js ''Finalizing video...''] \<and>
         map (req_image \<circ> fst) (submissions evs) = [None] \<and>
         (\<exists>videoBlob. ResponseBlob (Inr videoBlob) \<in> set evs \<and>
            object_urls evs = [(videoBlob, url)] \<and> url = createObjectURL w videoBlob)"
proof (cases w "\<lparr>prompt = p, imageFile = None\<rparr>" rule: generateVideo_cases)
  case NoKey
  with run show ?thesis by auto
next
  case (ReadFailed f)
  with run show ?thesis by auto
next
  case (SubmitFailed apiKey pre payload e)
  with run show ?thesis by auto
next
  case (Polled apiKey pre payload operation)
  let ?P = "poll_loop w fuel 0 operation"
  from Polled(3) have pre: "pre = []" "payload = None" by auto
  show ?thesis
  proof (cases "snd ?P")
    case (Returned t)
    show ?thesis
    proof (cases "truthy (video_uri t)")
      case True
      then obtain link where link: "video_uri t = Some link" "link \<noteq> []"
        by (cases "video_uri t") auto
      with run Polled(5) [of fuel] pre Returned show ?thesis
        by (auto simp: after_poll_uri poll_loop_other_events split: sum.splits if_splits)
    next
      case False
      with run Polled(5) [of fuel] pre Returned show ?thesis
        by (auto simp: after_poll_no_uri poll_loop_other_events)
    qed
  next
    case (Thrown e)
    with run Polled(5) [of fuel] pre show ?thesis by (auto simp: poll_loop_other_events)
  next
    case Pending
    with run Polled(5) [of fuel] pre show ?thesis by (auto simp: poll_loop_other_events)
  qed
qed

theorem no_image_run_progress_witness:
  "progress_messages (fst (generateVideo demo_world 3 cat_request)) =
     [js ''Sending request to AI...'',
      js ''AI is warming up... This may take a few minutes.''] @
     replicate 2 (js ''Checking video generation status...'') @
     [js ''Downloading generated video...'', js ''Finalizing video...''] \<and>
   map (req_image \<circ> fst) (submissions (fst (generateVideo demo_world 3 cat_request))) = [None] \<and>
   snd (generateVideo demo_world 3 cat_request) = Returned (js ''blob:1'')"
proof -
  let ?X = "generateVideo demo_world 3 cat_request"
  have out: "snd ?X = Returned (js ''blob:1'')" by (simp add: demo_run)
  have n: "length (status_checks (fst ?X)) = 2" by (simp add: demo_run)
  have "generateVideo demo_world 3 \<lparr>prompt = js ''a cat skateboarding'', imageFile = None\<rparr> =
          (fst ?X, Returned (js ''blob:1''))"
    using out by (simp add: cat_request_def prod_eq_iff)
  from no_image_run_progress [OF this] n out show ?thesis by simp
qed

text \<open>
  Claim C8 as stated fails: in a successful run without image the messages are not the
  list of the claim.
\<close>

theorem warming_up_message_counterexample:
  "snd (generateVideo demo_world 3 cat_request) = Returned (js ''blob:1'') \<and>
   progress_messages (fst (generateVideo demo_world 3 cat_request)) \<noteq>
     [js ''Sending request to AI...'', js ''AI is warming up...''] @
     replicate (length (status_checks (fst (generateVideo demo_world 3 cat_request))))
       (js ''Checking video generation status...'') @
     [js ''Downloading generated video...'', js ''Finalizing video...'']"
  by (simp add: demo_run)

text \<open>
  Claim C9. The API key is checked first: without it, a call that supplies an image
  reports no progress, reads no file and throws the missing key error; and a call with any
  event at all had an API key.
\<close>

theorem credential_check_first:
  "(\<not> truthy (env_API_KEY w) \<longrightarrow>
      progress_messages (fst (generateVideo w fuel \<lparr>prompt = p, imageFile = Some f\<rparr>)) = [] \<and>
      file_reads (fst (generateVideo w fuel \<lparr>prompt = p, imageFile = Some f\<rparr>)) = [] \<and>
      snd (generateVideo w fuel \<lparr>prompt = p, imageFile = Some f\<rparr>) =
        Thrown (Error (js ''API_KEY environment variable not set''))) \<and>
   (fst (generateVideo w fuel params) \<noteq> [] \<longrightarrow> truthy (env_API_KEY w))"
  using generateVideo_no_key [of w fuel params]
    generateVideo_no_key [of w fuel "\<lparr>prompt = p, imageFile = Some f\<rparr>"]
  by (cases "truthy (env_API_KEY w)") auto

theorem credential_check_first_witness:
  "progress_messages
     (fst (generateVideo keyless_world 3 \<lparr>prompt = js ''a dog'', imageFile = Some png_file\<rparr>)) = [] \<and>
   file_reads
     (fst (generateVideo keyless_world 3 \<lparr>prompt = js ''a dog'', imageFile = Some png_file\<rparr>)) = [] \<and>
   snd (generateVideo keyless_world 3 \<lparr>prompt = js ''a dog'', imageFile = Some png_file\<rparr>) =
     Thrown (Error (js ''API_KEY environment variable not set'')) \<and>
   truthy (env_API_KEY demo_world)"
proof -
  have absent: "\<not> truthy (env_API_KEY keyless_world)"
    by (simp add: keyless_world_fields)
  have busy: "fst (generateVideo demo_world 3 cat_request) \<noteq> []" by (simp add: demo_run)
  from credential_check_first [of keyless_world 3 "js ''a dog''" png_file cat_request] absent
    credential_check_first [of demo_world 3 "js ''a dog''" png_file cat_request] busy
  show ?thesis by blast
qed

text \<open>
  Claim C10. A submission of a call without image carries no image payload. A submission
  of a call with an image whose data URL is a header, a comma and a body, with no comma in
  the header nor in the body (base64 has none), carries the body as \<open>imageBytes\<close> and
  the type of the file as \<open>mimeType\<close>.
\<close>

theorem image_payload_submitted:
  assumes run: "generateVideo w fuel params = (evs, out)"
    and sub: "(request, r) \<in> set (submissions evs)"
  shows "(imageFile params = None \<longrightarrow> req_image request = None) \<and>
         (\<forall>f header body.
            imageFile params = Some f \<and> readAsDataURL w f = Some (header @ 0x2C # body) \<and>
            0x2C \<notin> set header \<and> 0x2C \<notin> set body \<longrightarrow>
            req_image request = Some \<lparr>imageBytes = Some body, mimeType = file_type f\<rparr>)"
proof (cases w params rule: generateVideo_cases)
  case NoKey
  with run sub show ?thesis by auto
next
  case (ReadFailed f)
  with run sub show ?thesis by auto
next
  case (SubmitFailed apiKey pre payload e)
  with run sub show ?thesis by (auto simp: split_data_url)
next
  case (Polled apiKey pre payload operation)
  let ?P = "poll_loop w fuel 0 operation"
  from Polled(3) have pre: "submissions pre = []" by auto
  have "request = \<lparr>req_model = js ''veo-2.0-generate-001'', req_prompt = prompt params,
                          req_image = payload, req_numberOfVideos = 1\<rparr>"
    using run sub Polled(5) [of fuel] pre by (cases "snd ?P") (auto simp: poll_loop_other_events)
  with Polled(3) show ?thesis by (auto simp: split_data_url)
qed

theorem image_payload_submitted_witness:
  "req_image (fst (hd (submissions
      (fst (generateVideo demo_world 3 \<lparr>prompt = js ''a dog'', imageFile = Some png_file\<rparr>))))) =
     Some \<lparr>imageBytes = Some (js ''QUJD''), mimeType = js ''image/png''\<rparr> \<and>
   req_image (fst (hd (submissions (fst (generateVideo demo_world 3 cat_request))))) = None"
proof -
  let ?p = "\<lparr>prompt = js ''a dog'', imageFile = Some png_file\<rparr>"
  let ?Y = "generateVideo demo_world 3 ?p"
  let ?X = "generateVideo demo_world 3 cat_request"
  have runY: "?Y = (fst ?Y, snd ?Y)" and runX: "?X = (fst ?X, snd ?X)" by simp_all
  have subY: "(fst (hd (submissions (fst ?Y))), snd (hd (submissions (fst ?Y)))) \<in>
      set (submissions (fst ?Y))" by (simp add: demo_image_run)
  have subX: "(fst (hd (submissions (fst ?X))), snd (hd (submissions (fst ?X)))) \<in>
      set (submissions (fst ?X))" by (simp add: demo_run)
  have img: "imageFile ?p = Some png_file" by simp
  have url: "readAsDataURL demo_world png_file = Some (js ''data:image/png;base64'' @ 0x2C # js ''QUJD'')"
    by (simp add: demo_world_fields js_def)
  have h: "0x2C \<notin> set (js ''data:image/png;base64'')" by (simp add: js_def)
  have b: "0x2C \<notin> set (js ''QUJD'')" by (simp add: js_def)
  have ty: "file_type png_file = js ''image/png''" by (simp add: png_file_def)
  have none: "imageFile cat_request = None" by (simp add: cat_request_def)
  from image_payload_submitted [OF runY subY] img url h b ty
    image_payload_submitted [OF runX subX] none
  show ?thesis by metis
qed

end
